theory Spec2Isabelle
  imports Complex_Main
begin

section \<open>Cross-lingual idiom similarity: scoring, ranking and statistics\<close>

text \<open>
  A shallow embedding of the scoring core of the idiom pipeline:
  \<^verbatim>\<open>analyze_improved_similarity.py\<close> (lexical overlap, weighted scorer, the two
  ranking modes and the statistics section of \<^verbatim>\<open>analyze_language_pair\<close>), the
  best-match loop of \<^verbatim>\<open>analyze_finnish_japanese_similarity.py\<close> and
  \<^verbatim>\<open>SemanticMatcher.find_similar_mwes\<close>.

  Conventions of the model.
  \<^item> Python floats are read as exact real numbers: similarities, weights, thresholds and
    scores have type \<open>real\<close>, so \<open>0.3\<close> is the rational \<open>3/10\<close>.
  \<^item> A text is a \<open>string\<close> of ASCII characters. The regular expression class \<open>\w\<close> is
    the ASCII letters, the digits and the underscore; \<open>str.lower\<close> maps \<open>A..Z\<close> to
    \<open>a..z\<close> and leaves every other character alone. Python's \<open>\w\<close> and \<open>str.lower\<close>
    also know the letters outside ASCII: a text with such a letter is outside the model,
    and the general properties of the overlap below do not depend on the character class.
  \<^item> The cosine of two vectors and the sentence encoder are outside the repository and
    enter as parameters; the ranking loops are stated for any two similarity matrices,
    and \<open>analyze_language_pair\<close> computes them from the embeddings.
  \<^item> Every exception the modelled code can raise is a value of \<open>py_error\<close>.
\<close>

datatype py_error = IndexError | ZeroDivisionError | ValueError

subsection \<open>Lexical overlap (\<open>get_tokens\<close>, \<open>calculate_lexical_overlap\<close>)\<close>

definition ascii_upper :: string where
  "ascii_upper = ''ABCDEFGHIJKLMNOPQRSTUVWXYZ''"

definition ascii_lower :: string where
  "ascii_lower = ''abcdefghijklmnopqrstuvwxyz''"

definition ascii_digits :: string where
  "ascii_digits = ''0123456789''"

definition is_alnum_char :: "char \<Rightarrow> bool" where
  "is_alnum_char c = (c \<in> set (ascii_lower @ ascii_upper @ ascii_digits))"

text \<open>The class \<open>\w\<close>: alphanumeric characters and the underscore.\<close>

definition is_word_char :: "char \<Rightarrow> bool" where
  "is_word_char c = (is_alnum_char c \<or> c = CHR ''_'')"

definition lower_char :: "char \<Rightarrow> char" where
  "lower_char c = (case map_of (zip ascii_upper ascii_lower) c of Some l \<Rightarrow> l | None \<Rightarrow> c)"

text \<open>\<^verbatim>\<open>text.lower()\<close>\<close>

definition lower :: "string \<Rightarrow> string" where
  "lower text = map lower_char text"

text \<open>
  \<^verbatim>\<open>re.findall(r'\b\w+\b', text)\<close>: the scan skips characters outside \<open>\w\<close>; at a word
  character it stands at a word boundary, the greedy \<open>\w+\<close> takes the whole run of word
  characters, the run's end is a word boundary again, and the scan goes on after the run.
\<close>

function findall_words :: "string \<Rightarrow> string list" where
  "findall_words [] = []"
| "findall_words (c # cs) =
     (if is_word_char c
      then (c # takeWhile is_word_char cs) # findall_words (dropWhile is_word_char cs)
      else findall_words cs)"
  by pat_completeness auto
termination
  by (relation "measure length") (auto intro: le_imp_less_Suc length_dropWhile_le)

definition get_tokens :: "string \<Rightarrow> string set" where
  "get_tokens text = set (findall_words (lower text))"

definition calculate_lexical_overlap :: "string \<Rightarrow> string \<Rightarrow> real" where
  "calculate_lexical_overlap idiom1 idiom2 =
     (let tokens1 = get_tokens idiom1;
          tokens2 = get_tokens idiom2
      in if tokens1 = {} \<or> tokens2 = {} then 0
         else (let shared = tokens1 \<inter> tokens2;
                   total = tokens1 \<union> tokens2
               in if total = {} then 0 else real (card shared) / real (card total)))"

subsection \<open>Weighted scorer (\<open>compute_weighted_similarity\<close>)\<close>

definition compute_weighted_similarity ::
  "real \<Rightarrow> real \<Rightarrow> string \<Rightarrow> string \<Rightarrow> real \<Rightarrow> real \<Rightarrow> bool \<Rightarrow> real" where
  "compute_weighted_similarity idiom_only_sim context_sim idiom1 idiom2
       idiom_weight context_weight lexical_penalty =
     (let weighted_score = (idiom_weight * idiom_only_sim) + (context_weight * context_sim)
      in if lexical_penalty
         then (let overlap = calculate_lexical_overlap idiom1 idiom2
               in if overlap > 0.3 \<and> weighted_score > 0.6
                  then (let penalty_factor = 1 - (overlap * 0.5)
                        in weighted_score * penalty_factor)
                  else weighted_score)
         else weighted_score)"

text \<open>
  The tokenizer as the specification words it: tokens are runs of alphanumeric
  characters, everything else (punctuation) is discarded. It differs from
  \<open>findall_words\<close> only in the character class.
\<close>

function spec_alnum_runs :: "string \<Rightarrow> string list" where
  "spec_alnum_runs [] = []"
| "spec_alnum_runs (c # cs) =
     (if is_alnum_char c
      then (c # takeWhile is_alnum_char cs) # spec_alnum_runs (dropWhile is_alnum_char cs)
      else spec_alnum_runs cs)"
  by pat_completeness auto
termination
  by (relation "measure length") (auto intro: le_imp_less_Suc length_dropWhile_le)

definition spec_tokens :: "string \<Rightarrow> string set" where
  "spec_tokens text = set (spec_alnum_runs (lower text))"

definition spec_lexical_overlap :: "string \<Rightarrow> string \<Rightarrow> real" where
  "spec_lexical_overlap a b =
     (if spec_tokens a = {} \<or> spec_tokens b = {} then 0
      else real (card (spec_tokens a \<inter> spec_tokens b)) /
           real (card (spec_tokens a \<union> spec_tokens b)))"

subsection \<open>Idiom records, similarity matrices, Python helpers\<close>

record idiom_rec =
  idiom :: string
  contexts :: "string list"
  english_translations :: "string list"

text \<open>
  \<open>idiom_only_sims[en_idx, tgt_idx]\<close> and \<open>context_sims[en_idx, tgt_idx]\<close>: the loops
  only read entries below the two idiom counts, which the matrices cover.
\<close>

type_synonym matrix = "nat \<Rightarrow> nat \<Rightarrow> real"

text \<open>\<^verbatim>\<open>xs[0] if xs else ''\<close>\<close>

definition first_or_empty :: "string list \<Rightarrow> string" where
  "first_or_empty xs = (case xs of [] \<Rightarrow> [] | x # _ \<Rightarrow> x)"

text \<open>\<^verbatim>\<open>xs[i]\<close>: a negative index counts from the end, out of range raises.\<close>

definition py_index :: "'a list \<Rightarrow> int \<Rightarrow> py_error + 'a" where
  "py_index xs i =
     (if 0 \<le> i \<and> i < int (length xs) then Inr (xs ! nat i)
      else if i < 0 \<and> - int (length xs) \<le> i then Inr (xs ! nat (int (length xs) + i))
      else Inl IndexError)"

text \<open>\<^verbatim>\<open>xs[:k]\<close>: a negative bound drops that many elements from the end.\<close>

definition py_slice_to :: "'a list \<Rightarrow> int \<Rightarrow> 'a list" where
  "py_slice_to xs k =
     (if 0 \<le> k then take (nat k) xs else take (length xs - nat (- k)) xs)"

text \<open>
  \<^verbatim>\<open>sorted(xs, key=k, reverse=True)\<close>: descending by key; the sort is stable, and
  \<open>reverse=True\<close> keeps elements of equal key in their original order.
\<close>

definition sorted_reverse :: "('a \<Rightarrow> real) \<Rightarrow> 'a list \<Rightarrow> 'a list" where
  "sorted_reverse k xs = sort_key (\<lambda>x. - k x) xs"

text \<open>
  The call of the scorer that both ranking modes make for the pair
  \<open>(en_idx, tgt_idx)\<close>, with the lexical penalty enabled.
\<close>

definition pair_weighted ::
  "idiom_rec list \<Rightarrow> idiom_rec list \<Rightarrow> matrix \<Rightarrow> matrix \<Rightarrow> real \<Rightarrow> real \<Rightarrow> nat \<Rightarrow> nat \<Rightarrow> real" where
  "pair_weighted en_idioms target_idioms idiom_only_sims context_sims
       idiom_weight context_weight en_idx tgt_idx =
     compute_weighted_similarity
       (idiom_only_sims en_idx tgt_idx) (context_sims en_idx tgt_idx)
       (idiom (en_idioms ! en_idx)) (idiom (target_idioms ! tgt_idx))
       idiom_weight context_weight True"

subsection \<open>Mode A: all pairs above the threshold\<close>

record match_rec =
  english_idiom :: string
  english_context :: string
  lang_idiom :: string
  lang_context :: string
  english_translation :: string
  weighted_similarity :: real
  idiom_only_similarity :: real
  context_similarity :: real
  lexical_overlap :: real

definition match_record ::
  "idiom_rec list \<Rightarrow> idiom_rec list \<Rightarrow> matrix \<Rightarrow> matrix \<Rightarrow> real \<Rightarrow> real \<Rightarrow> nat \<Rightarrow> nat \<Rightarrow> match_rec" where
  "match_record en_idioms target_idioms idiom_only_sims context_sims
       idiom_weight context_weight en_idx tgt_idx =
     \<lparr> english_idiom = idiom (en_idioms ! en_idx),
       english_context = first_or_empty (contexts (en_idioms ! en_idx)),
       lang_idiom = idiom (target_idioms ! tgt_idx),
       lang_context = first_or_empty (contexts (target_idioms ! tgt_idx)),
       english_translation = first_or_empty (english_translations (target_idioms ! tgt_idx)),
       weighted_similarity =
         pair_weighted en_idioms target_idioms idiom_only_sims context_sims
           idiom_weight context_weight en_idx tgt_idx,
       idiom_only_similarity = idiom_only_sims en_idx tgt_idx,
       context_similarity = context_sims en_idx tgt_idx,
       lexical_overlap =
         calculate_lexical_overlap (idiom (en_idioms ! en_idx)) (idiom (target_idioms ! tgt_idx)) \<rparr>"

text \<open>The nested loop over \<open>range(len(en_idioms))\<close> and \<open>range(len(target_idioms))\<close>.\<close>

definition all_matches ::
  "idiom_rec list \<Rightarrow> idiom_rec list \<Rightarrow> matrix \<Rightarrow> matrix \<Rightarrow> real \<Rightarrow> real \<Rightarrow> real \<Rightarrow> match_rec list" where
  "all_matches en_idioms target_idioms idiom_only_sims context_sims
       min_threshold idiom_weight context_weight =
     concat (map (\<lambda>en_idx.
       concat (map (\<lambda>tgt_idx.
         if pair_weighted en_idioms target_idioms idiom_only_sims context_sims
              idiom_weight context_weight en_idx tgt_idx \<ge> min_threshold
         then [match_record en_idioms target_idioms idiom_only_sims context_sims
                 idiom_weight context_weight en_idx tgt_idx]
         else [])
       [0..<length target_idioms]))
     [0..<length en_idioms])"

definition all_matches_sorted ::
  "idiom_rec list \<Rightarrow> idiom_rec list \<Rightarrow> matrix \<Rightarrow> matrix \<Rightarrow> real \<Rightarrow> real \<Rightarrow> real \<Rightarrow> match_rec list" where
  "all_matches_sorted en_idioms target_idioms idiom_only_sims context_sims
       min_threshold idiom_weight context_weight =
     sorted_reverse weighted_similarity
       (all_matches en_idioms target_idioms idiom_only_sims context_sims
          min_threshold idiom_weight context_weight)"

text \<open>What \<open>json.dump\<close> and the CSV writer receive: \<^verbatim>\<open>all_matches_sorted[:100]\<close>.\<close>

definition saved_matches ::
  "idiom_rec list \<Rightarrow> idiom_rec list \<Rightarrow> matrix \<Rightarrow> matrix \<Rightarrow> real \<Rightarrow> real \<Rightarrow> real \<Rightarrow> match_rec list" where
  "saved_matches en_idioms target_idioms idiom_only_sims context_sims
       min_threshold idiom_weight context_weight =
     take 100 (all_matches_sorted en_idioms target_idioms idiom_only_sims context_sims
                 min_threshold idiom_weight context_weight)"

text \<open>The scores the quality metrics are computed from.\<close>

definition weighted_scores ::
  "idiom_rec list \<Rightarrow> idiom_rec list \<Rightarrow> matrix \<Rightarrow> matrix \<Rightarrow> real \<Rightarrow> real \<Rightarrow> real \<Rightarrow> real list" where
  "weighted_scores en_idioms target_idioms idiom_only_sims context_sims
       min_threshold idiom_weight context_weight =
     map weighted_similarity
       (all_matches_sorted en_idioms target_idioms idiom_only_sims context_sims
          min_threshold idiom_weight context_weight)"

subsection \<open>Mode B: best English match per target idiom\<close>

record best_rec =
  best_lang_idiom :: string
  best_lang_context :: string
  best_english_translation :: string
  best_english_match :: string
  best_english_context :: string
  best_weighted_similarity :: real
  best_idiom_only_similarity :: real
  best_context_similarity :: real
  best_lexical_overlap :: real

text \<open>The four variables the inner loop updates.\<close>

record scan_state =
  best_score :: real
  best_en_idx :: int
  best_idiom_sim :: real
  best_context_sim :: real

definition scan_init :: scan_state where
  "scan_init = \<lparr> best_score = - 1, best_en_idx = - 1, best_idiom_sim = 0, best_context_sim = 0 \<rparr>"

definition scan_step ::
  "idiom_rec list \<Rightarrow> idiom_rec list \<Rightarrow> matrix \<Rightarrow> matrix \<Rightarrow> real \<Rightarrow> real \<Rightarrow> nat \<Rightarrow>
     scan_state \<Rightarrow> nat \<Rightarrow> scan_state" where
  "scan_step en_idioms target_idioms idiom_only_sims context_sims
       idiom_weight context_weight tgt_idx st en_idx =
     (let idiom_sim = idiom_only_sims en_idx tgt_idx;
          context_sim = context_sims en_idx tgt_idx;
          weighted_sim = pair_weighted en_idioms target_idioms idiom_only_sims context_sims
                           idiom_weight context_weight en_idx tgt_idx
      in if weighted_sim > best_score st
         then \<lparr> best_score = weighted_sim, best_en_idx = int en_idx,
                best_idiom_sim = idiom_sim, best_context_sim = context_sim \<rparr>
         else st)"

text \<open>\<^verbatim>\<open>for en_idx in range(len(en_idioms))\<close>, from the initial sentinels.\<close>

definition scan_sources ::
  "idiom_rec list \<Rightarrow> idiom_rec list \<Rightarrow> matrix \<Rightarrow> matrix \<Rightarrow> real \<Rightarrow> real \<Rightarrow> nat \<Rightarrow> scan_state" where
  "scan_sources en_idioms target_idioms idiom_only_sims context_sims
       idiom_weight context_weight tgt_idx =
     foldl (scan_step en_idioms target_idioms idiom_only_sims context_sims
              idiom_weight context_weight tgt_idx)
       scan_init [0..<length en_idioms]"

text \<open>
  One pass of the outer loop: scan, then read \<open>en_idioms[best_en_idx]\<close> (which raises on
  an empty list) and build the record.
\<close>

definition best_match_record ::
  "idiom_rec list \<Rightarrow> idiom_rec list \<Rightarrow> matrix \<Rightarrow> matrix \<Rightarrow> real \<Rightarrow> real \<Rightarrow> nat \<Rightarrow>
     py_error + best_rec" where
  "best_match_record en_idioms target_idioms idiom_only_sims context_sims
       idiom_weight context_weight tgt_idx =
     (let tgt_idiom_data = target_idioms ! tgt_idx;
          tgt_idiom = idiom tgt_idiom_data;
          st = scan_sources en_idioms target_idioms idiom_only_sims context_sims
                 idiom_weight context_weight tgt_idx
      in case py_index en_idioms (best_en_idx st) of
           Inl e \<Rightarrow> Inl e
         | Inr best_en \<Rightarrow>
             Inr \<lparr> best_lang_idiom = tgt_idiom,
                   best_lang_context = first_or_empty (contexts tgt_idiom_data),
                   best_english_translation = first_or_empty (english_translations tgt_idiom_data),
                   best_english_match = idiom best_en,
                   best_english_context = first_or_empty (contexts best_en),
                   best_weighted_similarity = best_score st,
                   best_idiom_only_similarity = best_idiom_sim st,
                   best_context_similarity = best_context_sim st,
                   best_lexical_overlap = calculate_lexical_overlap (idiom best_en) tgt_idiom \<rparr>)"

text \<open>Appending one record per index; the first exception ends the loop.\<close>

fun collect_records :: "(nat \<Rightarrow> py_error + 'r) \<Rightarrow> nat list \<Rightarrow> py_error + 'r list" where
  "collect_records f [] = Inr []"
| "collect_records f (i # is) =
     (case f i of
        Inl e \<Rightarrow> Inl e
      | Inr r \<Rightarrow> (case collect_records f is of Inl e \<Rightarrow> Inl e | Inr rs \<Rightarrow> Inr (r # rs)))"

definition target_best_matches ::
  "idiom_rec list \<Rightarrow> idiom_rec list \<Rightarrow> matrix \<Rightarrow> matrix \<Rightarrow> real \<Rightarrow> real \<Rightarrow>
     py_error + best_rec list" where
  "target_best_matches en_idioms target_idioms idiom_only_sims context_sims
       idiom_weight context_weight =
     collect_records
       (best_match_record en_idioms target_idioms idiom_only_sims context_sims
          idiom_weight context_weight)
       [0..<length target_idioms]"

definition target_best_matches_sorted ::
  "idiom_rec list \<Rightarrow> idiom_rec list \<Rightarrow> matrix \<Rightarrow> matrix \<Rightarrow> real \<Rightarrow> real \<Rightarrow>
     py_error + best_rec list" where
  "target_best_matches_sorted en_idioms target_idioms idiom_only_sims context_sims
       idiom_weight context_weight =
     (case target_best_matches en_idioms target_idioms idiom_only_sims context_sims
             idiom_weight context_weight of
        Inl e \<Rightarrow> Inl e
      | Inr ms \<Rightarrow> Inr (sorted_reverse best_weighted_similarity ms))"

subsection \<open>Mode B of the basic analysis (\<open>np.argmax\<close> over a matrix column)\<close>

text \<open>
  \<open>np.argmax\<close>: the index of the first occurrence of the maximum; \<open>ValueError\<close> on an
  empty sequence.
\<close>

definition np_argmax :: "real list \<Rightarrow> py_error + nat" where
  "np_argmax xs =
     (case xs of
        [] \<Rightarrow> Inl ValueError
      | x # rest \<Rightarrow>
          Inr (fst (foldl (\<lambda>(bi, bv) (i, v). if v > bv then (i, v) else (bi, bv))
                      (0, x) (zip [1..<length xs] rest))))"

record simple_best_rec =
  simple_lang_idiom :: string
  simple_lang_context :: string
  simple_english_translation :: string
  simple_best_english_match :: string
  simple_english_context :: string
  simple_similarity :: real

definition simple_best_match_record ::
  "idiom_rec list \<Rightarrow> idiom_rec list \<Rightarrow> matrix \<Rightarrow> nat \<Rightarrow> py_error + simple_best_rec" where
  "simple_best_match_record en_idioms target_idioms similarities tgt_idx =
     (let tgt_idiom = target_idioms ! tgt_idx;
          sims = map (\<lambda>en_idx. similarities en_idx tgt_idx) [0..<length en_idioms]
      in case np_argmax sims of
           Inl e \<Rightarrow> Inl e
         | Inr best_idx \<Rightarrow>
             Inr \<lparr> simple_lang_idiom = idiom tgt_idiom,
                   simple_lang_context = first_or_empty (contexts tgt_idiom),
                   simple_english_translation = first_or_empty (english_translations tgt_idiom),
                   simple_best_english_match = idiom (en_idioms ! best_idx),
                   simple_english_context = first_or_empty (contexts (en_idioms ! best_idx)),
                   simple_similarity = sims ! best_idx \<rparr>)"

definition simple_target_best_matches ::
  "idiom_rec list \<Rightarrow> idiom_rec list \<Rightarrow> matrix \<Rightarrow> py_error + simple_best_rec list" where
  "simple_target_best_matches en_idioms target_idioms similarities =
     collect_records (simple_best_match_record en_idioms target_idioms similarities)
       [0..<length target_idioms]"

subsection \<open>Statistics\<close>

text \<open>
  \<open>np.mean\<close> and \<open>np.median\<close> of an empty sequence warn and return \<open>nan\<close>, here
  \<open>None\<close>; \<open>np.min\<close> and \<open>np.max\<close> of an empty sequence raise \<open>ValueError\<close>.
\<close>

definition np_mean :: "real list \<Rightarrow> real option" where
  "np_mean xs = (if xs = [] then None else Some (sum_list xs / real (length xs)))"

definition np_median :: "real list \<Rightarrow> real option" where
  "np_median xs =
     (if xs = [] then None
      else (let ys = sort xs; n = length ys
            in if odd n then Some (ys ! (n div 2))
               else Some ((ys ! (n div 2 - 1) + ys ! (n div 2)) / 2)))"

definition np_min :: "real list \<Rightarrow> py_error + real" where
  "np_min xs = (case xs of [] \<Rightarrow> Inl ValueError | x # rest \<Rightarrow> Inr (fold min rest x))"

definition np_max :: "real list \<Rightarrow> py_error + real" where
  "np_max xs = (case xs of [] \<Rightarrow> Inl ValueError | x # rest \<Rightarrow> Inr (fold max rest x))"

text \<open>
  The bucket loop over the cut points: \<^verbatim>\<open>count = sum(1 for s in scores if s >= thresh)\<close>,
  \<^verbatim>\<open>pct = count / len(scores) * 100\<close>; dividing by a zero length raises.
\<close>

fun threshold_distribution :: "real list \<Rightarrow> real list \<Rightarrow> py_error + (real \<times> nat \<times> real) list" where
  "threshold_distribution scores [] = Inr []"
| "threshold_distribution scores (thresh # rest) =
     (let count = length (filter (\<lambda>s. s \<ge> thresh) scores)
      in if length scores = 0 then Inl ZeroDivisionError
         else (case threshold_distribution scores rest of
                 Inl e \<Rightarrow> Inl e
               | Inr rows \<Rightarrow>
                   Inr ((thresh, count, real count / real (length scores) * 100) # rows)))"

text \<open>
  "Matches above threshold": printed only under the guard \<^verbatim>\<open>if weighted_scores:\<close>, so
  \<open>None\<close> stands for nothing printed.
\<close>

definition quality_metrics :: "real list \<Rightarrow> (nat \<times> real option \<times> real option) option" where
  "quality_metrics scores =
     (if scores = [] then None
      else Some (length scores, np_mean scores, np_median scores))"

record best_match_report =
  report_mean :: "real option"
  report_median :: "real option"
  report_min :: real
  report_max :: real
  report_distribution :: "(real \<times> nat \<times> real) list"

text \<open>"Best match per idiom": mean, median, min, max, then the bucket loop, unguarded.\<close>

definition best_match_statistics :: "real list \<Rightarrow> py_error + best_match_report" where
  "best_match_statistics best_weighted =
     (case np_min best_weighted of
        Inl e \<Rightarrow> Inl e
      | Inr lo \<Rightarrow>
          (case np_max best_weighted of
             Inl e \<Rightarrow> Inl e
           | Inr hi \<Rightarrow>
               (case threshold_distribution best_weighted [0.5, 0.6, 0.7, 0.8, 0.9] of
                  Inl e \<Rightarrow> Inl e
                | Inr rows \<Rightarrow>
                    Inr \<lparr> report_mean = np_mean best_weighted,
                          report_median = np_median best_weighted,
                          report_min = lo, report_max = hi,
                          report_distribution = rows \<rparr>)))"

subsection \<open>The similarity matrices and \<open>analyze_language_pair\<close> as a whole\<close>

text \<open>
  An embedding array is a list of row vectors. The two embedding arrays of a language
  come with its idiom list but are a separate argument.
\<close>

record dual_embeddings =
  idiom_only_embeddings :: "real list list"
  idiom_context_embeddings :: "real list list"

text \<open>
  The rows of \<open>X\<close> and \<open>Y\<close> have one common, positive length: the check of the two
  arrays that \<open>cosine_similarity\<close> makes before it computes anything.
\<close>

definition common_dimension :: "real list list \<Rightarrow> real list list \<Rightarrow> bool" where
  "common_dimension X Y =
     (case X of
        [] \<Rightarrow> False
      | x # _ \<Rightarrow> x \<noteq> [] \<and> list_all (\<lambda>v. length v = length x) (X @ Y))"

text \<open>
  \<open>cosine_similarity(X, Y)\<close> of scikit-learn: \<open>ValueError\<close> when an array has no row
  (or the rows no common dimension), otherwise the matrix with one row per row of \<open>X\<close>
  and one column per row of \<open>Y\<close>. The cosine of two vectors is the parameter \<open>cosine\<close>.
\<close>

definition cosine_similarity ::
  "(real list \<Rightarrow> real list \<Rightarrow> real) \<Rightarrow> real list list \<Rightarrow> real list list \<Rightarrow>
     py_error + real list list" where
  "cosine_similarity cosine X Y =
     (if X = [] \<or> Y = [] then Inl ValueError
      else if common_dimension X Y then Inr (map (\<lambda>x. map (cosine x) Y) X)
      else Inl ValueError)"

text \<open>Reading \<open>sims[en_idx, tgt_idx]\<close> from the computed array.\<close>

definition matrix_of :: "real list list \<Rightarrow> matrix" where
  "matrix_of rows en_idx tgt_idx = rows ! en_idx ! tgt_idx"

text \<open>
  The array has at least \<open>m\<close> rows and \<open>n\<close> columns; reading it at an index pair beyond
  its shape raises \<open>IndexError\<close>.
\<close>

definition matrix_covers :: "real list list \<Rightarrow> nat \<Rightarrow> nat \<Rightarrow> bool" where
  "matrix_covers rows m n = (m \<le> length rows \<and> list_all (\<lambda>r. n \<le> length r) rows)"

text \<open>
  \<open>analyze_language_pair\<close>: the two calls of \<open>cosine_similarity\<close>, Mode A (whose first
  read of a matrix entry beyond the shape of the arrays raises), Mode B, the statistics,
  and the returned pair of the match count and the sorted best matches.
\<close>

definition analyze_language_pair ::
  "(real list \<Rightarrow> real list \<Rightarrow> real) \<Rightarrow> idiom_rec list \<Rightarrow> dual_embeddings \<Rightarrow>
     idiom_rec list \<Rightarrow> dual_embeddings \<Rightarrow> real \<Rightarrow> real \<Rightarrow> real \<Rightarrow>
     py_error + (nat \<times> best_rec list)" where
  "analyze_language_pair cosine en_idioms en_embeddings target_idioms target_embeddings
       min_threshold idiom_weight context_weight =
     (case cosine_similarity cosine (idiom_only_embeddings en_embeddings)
             (idiom_only_embeddings target_embeddings) of
        Inl e \<Rightarrow> Inl e
      | Inr idiom_only_rows \<Rightarrow>
     (case cosine_similarity cosine (idiom_context_embeddings en_embeddings)
             (idiom_context_embeddings target_embeddings) of
        Inl e \<Rightarrow> Inl e
      | Inr context_rows \<Rightarrow>
          if en_idioms \<noteq> [] \<and> target_idioms \<noteq> [] \<and>
             \<not> (matrix_covers idiom_only_rows (length en_idioms) (length target_idioms) \<and>
                matrix_covers context_rows (length en_idioms) (length target_idioms))
          then Inl IndexError
          else
            (let idiom_only_sims = matrix_of idiom_only_rows;
                 context_sims = matrix_of context_rows;
                 sorted_matches = all_matches_sorted en_idioms target_idioms idiom_only_sims
                                    context_sims min_threshold idiom_weight context_weight
             in case target_best_matches_sorted en_idioms target_idioms idiom_only_sims
                       context_sims idiom_weight context_weight of
                  Inl e \<Rightarrow> Inl e
                | Inr best_sorted \<Rightarrow>
                    (case best_match_statistics (map best_weighted_similarity best_sorted) of
                       Inl e \<Rightarrow> Inl e
                     | Inr report \<Rightarrow> Inr (length sorted_matches, best_sorted)))))"

subsection \<open>\<open>SemanticMatcher.find_similar_mwes\<close>\<close>

text \<open>
  \<open>np.argsort\<close>: the indices in ascending order of their values (the order among equal
  values is not fixed by numpy; here it is by index).
\<close>

definition np_argsort :: "real list \<Rightarrow> nat list" where
  "np_argsort xs = sort_key (\<lambda>i. xs ! i) [0..<length xs]"

text \<open>The body of the loop: the top indices, filtered by the threshold.\<close>

definition matched_mwes :: "string list \<Rightarrow> real list \<Rightarrow> real \<Rightarrow> int \<Rightarrow> (string \<times> real) list" where
  "matched_mwes foreign_mwes similarities threshold top_k =
     (let top_indices = py_slice_to (rev (np_argsort similarities)) top_k
      in map (\<lambda>idx. (foreign_mwes ! idx, similarities ! idx))
           (filter (\<lambda>idx. similarities ! idx \<ge> threshold) top_indices))"

definition record_matches ::
  "string list \<Rightarrow> real \<Rightarrow> int \<Rightarrow> (string \<rightharpoonup> (string \<times> real) list) \<Rightarrow> string \<times> real list \<Rightarrow>
     (string \<rightharpoonup> (string \<times> real) list)" where
  "record_matches foreign_mwes threshold top_k matches entry =
     (let matched = matched_mwes foreign_mwes (snd entry) threshold top_k
      in if matched = [] then matches else matches(fst entry \<mapsto> matched))"

text \<open>
  The English idioms are a list of strings or a list of dictionaries with the optional
  keys \<open>text\<close>, \<open>idiom\<close> and \<open>contexts\<close>; the first element decides which.
\<close>

record idiom_dict =
  dict_text :: "string option"
  dict_idiom :: "string option"
  dict_contexts :: "string list option"

datatype english_input = Strings "string list" | Dicts "idiom_dict list"

text \<open>\<^verbatim>\<open>item.get('text', item.get('idiom', ''))\<close>\<close>

definition dict_idiom_text :: "idiom_dict \<Rightarrow> string" where
  "dict_idiom_text item =
     (case dict_text item of
        Some t \<Rightarrow> t
      | None \<Rightarrow> (case dict_idiom item of Some t \<Rightarrow> t | None \<Rightarrow> []))"

text \<open>\<^verbatim>\<open>' '.join(contexts)\<close>\<close>

fun join_spaces :: "string list \<Rightarrow> string" where
  "join_spaces [] = []"
| "join_spaces [x] = x"
| "join_spaces (x # y # rest) = x @ '' '' @ join_spaces (y # rest)"

text \<open>
  One pass of \<open>encode_idioms_with_context\<close>: the text handed to the encoder, the idiom
  with up to three contexts when the item has any.
\<close>

definition text_to_encode :: "idiom_dict \<Rightarrow> string" where
  "text_to_encode item =
     (let idiom_text = dict_idiom_text item
      in case dict_contexts item of
           None \<Rightarrow> idiom_text
         | Some cs \<Rightarrow>
             if cs = [] then idiom_text
             else idiom_text @ '': '' @ join_spaces (take 3 cs))"

text \<open>The keys of the returned mapping and the texts that are encoded, in input order.\<close>

definition idiom_texts_of :: "english_input \<Rightarrow> string list" where
  "idiom_texts_of english_idioms =
     (case english_idioms of Strings es \<Rightarrow> es | Dicts ds \<Rightarrow> map dict_idiom_text ds)"

definition encoded_texts_of :: "english_input \<Rightarrow> string list" where
  "encoded_texts_of english_idioms =
     (case english_idioms of Strings es \<Rightarrow> es | Dicts ds \<Rightarrow> map text_to_encode ds)"

text \<open>
  The encoder followed by \<open>compute_similarity\<close>. The parameter \<open>sim\<close> is the cosine of the
  encodings of two texts, so entry \<open>(i, j)\<close> of the matrix is \<open>sim\<close> of the \<open>i\<close>-th encoded
  English text and the \<open>j\<close>-th foreign MWE; \<open>cosine_similarity\<close> raises \<open>ValueError\<close> on
  an array without rows, that is when a list of texts is empty.
\<close>

definition compute_similarity ::
  "(string \<Rightarrow> string \<Rightarrow> real) \<Rightarrow> string list \<Rightarrow> string list \<Rightarrow> py_error + real list list" where
  "compute_similarity sim texts1 texts2 =
     (if texts1 = [] \<or> texts2 = [] then Inl ValueError
      else Inr (map (\<lambda>a. map (sim a) texts2) texts1))"

text \<open>
  \<open>find_similar_mwes\<close>: \<open>english_idioms[0]\<close> is read first, which raises on an empty
  list; then the encodings and the similarity matrix; then the loop over the idiom texts
  with their matrix rows.
\<close>

definition find_similar_mwes ::
  "(string \<Rightarrow> string \<Rightarrow> real) \<Rightarrow> english_input \<Rightarrow> string list \<Rightarrow> real \<Rightarrow> int \<Rightarrow>
     py_error + (string \<rightharpoonup> (string \<times> real) list)" where
  "find_similar_mwes sim english_idioms foreign_mwes threshold top_k =
     (if idiom_texts_of english_idioms = [] then Inl IndexError
      else
        (let idiom_texts = idiom_texts_of english_idioms
         in case compute_similarity sim (encoded_texts_of english_idioms) foreign_mwes of
              Inl e \<Rightarrow> Inl e
            | Inr similarity_matrix \<Rightarrow>
                Inr (foldl (record_matches foreign_mwes threshold top_k) Map.empty
                       (zip idiom_texts similarity_matrix))))"

subsection \<open>Vocabulary of the properties\<close>

text \<open>
  The order of the nested loop of Mode A over index pairs: source index first, then
  target index.
\<close>

definition index_before :: "nat \<times> nat \<Rightarrow> nat \<times> nat \<Rightarrow> bool" where
  "index_before p q = (fst p < fst q \<or> (fst p = fst q \<and> snd p < snd q))"

text \<open>
  The ranking the specification asks of Mode A: a higher score comes first, and among
  equal scores the pair seen first in the input.
\<close>

definition ranked_before :: "(nat \<times> nat \<Rightarrow> real) \<Rightarrow> nat \<times> nat \<Rightarrow> nat \<times> nat \<Rightarrow> bool" where
  "ranked_before score p q =
     (score q < score p \<or>
      (score p = score q \<and> (fst p < fst q \<or> (fst p = fst q \<and> snd p < snd q))))"

text \<open>The index pairs of the cross product whose weighted score reaches the threshold.\<close>

definition retained_pairs ::
  "idiom_rec list \<Rightarrow> idiom_rec list \<Rightarrow> matrix \<Rightarrow> matrix \<Rightarrow> real \<Rightarrow> real \<Rightarrow> real \<Rightarrow>
     (nat \<times> nat) list" where
  "retained_pairs en tgt isims csims thr iw cw =
     filter (\<lambda>(i, j). pair_weighted en tgt isims csims iw cw i j \<ge> thr)
       (List.product [0..<length en] [0..<length tgt])"

text \<open>Inputs for the concrete evaluations: a matrix with one value everywhere.\<close>

definition const_matrix :: "real \<Rightarrow> matrix" where
  "const_matrix v en_idx tgt_idx = v"

definition bare_idiom :: "string \<Rightarrow> idiom_rec" where
  "bare_idiom text = \<lparr> idiom = text, contexts = [], english_translations = [] \<rparr>"

text \<open>\<^verbatim>\<open>matches.get(idiom)\<close> on what \<open>find_similar_mwes\<close> returned.\<close>

definition matches_of ::
  "py_error + (string \<rightharpoonup> (string \<times> real) list) \<Rightarrow> string \<Rightarrow> (string \<times> real) list option" where
  "matches_of result idiom_text = (case result of Inl e \<Rightarrow> None | Inr matches \<Rightarrow> matches idiom_text)"

text \<open>A similarity table for the concrete evaluations of the matcher.\<close>

definition example_sim :: "string \<Rightarrow> string \<Rightarrow> real" where
  "example_sim e f =
     (if e = ''a'' then (if f = ''x'' then 0.7 else if f = ''y'' then 0.9 else 0.8) else 0.1)"

text \<open>
  For the concrete evaluations of the whole analysis: the cosine of two unit vectors
  (their dot product), and a language's two embedding arrays made of one array.
\<close>

definition unit_cosine :: "real list \<Rightarrow> real list \<Rightarrow> real" where
  "unit_cosine x y = sum_list (map2 (*) x y)"

definition same_embeddings :: "real list list \<Rightarrow> dual_embeddings" where
  "same_embeddings rows = \<lparr> idiom_only_embeddings = rows, idiom_context_embeddings = rows \<rparr>"

text \<open>English idioms given as dictionaries, the second one with a context.\<close>

definition example_dicts :: english_input where
  "example_dicts = Dicts
     [\<lparr> dict_text = Some ''a'', dict_idiom = None, dict_contexts = None \<rparr>,
      \<lparr> dict_text = None, dict_idiom = Some ''b'', dict_contexts = Some [''to b or not''] \<rparr>]"

section \<open>Properties\<close>

subsection \<open>Lexical overlap\<close>

lemma tokens_finite: "finite (get_tokens a)"
  by (simp add: get_tokens_def)

lemma overlap_commute: "calculate_lexical_overlap a b = calculate_lexical_overlap b a"
  by (simp add: calculate_lexical_overlap_def Let_def Int_commute Un_commute disj_commute)

lemma overlap_nonneg: "0 \<le> calculate_lexical_overlap a b"
  by (simp add: calculate_lexical_overlap_def Let_def)

lemma overlap_le_one: "calculate_lexical_overlap a b \<le> 1"
proof -
  let ?i = "card (get_tokens a \<inter> get_tokens b)"
  let ?u = "card (get_tokens a \<union> get_tokens b)"
  have "?i \<le> ?u"
    by (rule card_mono) (auto simp: tokens_finite)
  then have "real ?i / real ?u \<le> 1"
    by (cases "?u = 0") (simp_all add: divide_le_eq_1)
  then show ?thesis
    by (simp add: calculate_lexical_overlap_def Let_def)
qed

lemma overlap_self: "get_tokens a \<noteq> {} \<Longrightarrow> calculate_lexical_overlap a a = 1"
  by (simp add: calculate_lexical_overlap_def Let_def tokens_finite)

lemma overlap_empty:
  "get_tokens a = {} \<or> get_tokens b = {} \<Longrightarrow> calculate_lexical_overlap a b = 0"
  by (auto simp: calculate_lexical_overlap_def Let_def)

text \<open>Concrete overlaps used below: \<open>3/10\<close>, \<open>31/100\<close> and the specification's \<open>1/2\<close>.\<close>

lemma overlap_three_tenths:
  "calculate_lexical_overlap ''a b c d e f'' ''a b c g h i j'' = 0.3"
  by code_simp

lemma overlap_thirty_one_hundredths:
  "calculate_lexical_overlap
     ''a0 a1 a2 a3 a4 a5 a6 a7 a8 a9 b0 b1 b2 b3 b4 b5 b6 b7 b8 b9 c0 c1 c2 c3 c4 c5 c6 c7 c8 c9 d0 d1 d2 d3 d4 d5 d6 d7 d8 d9 e0 e1 e2 e3 e4 e5 e6 e7 e8 e9 f0 f1 f2 f3 f4 f5 f6 f7 f8 f9 g0 g1 g2 g3 g4 g5 g6 g7 g8 g9 h0 h1 h2 h3 h4 h5 h6 h7 h8 h9 i0 i1 i2 i3 i4 i5 i6 i7 i8 i9 j0 j1 j2 j3 j4 j5 j6 j7 j8 j9''
     ''a0 a1 a2 a3 a4 a5 a6 a7 a8 a9 b0 b1 b2 b3 b4 b5 b6 b7 b8 b9 c0 c1 c2 c3 c4 c5 c6 c7 c8 c9 d0'' = 0.31"
  by code_simp

lemma overlap_kick: "calculate_lexical_overlap ''kick the bucket'' ''Kick the can!'' = 0.5"
  by code_simp

lemma tokens_kick: "get_tokens ''kick the bucket'' = {''kick'', ''the'', ''bucket''}"
  by code_simp

lemma tokens_punctuation: "get_tokens ''?!'' = {}"
  by code_simp

lemma lower_char_underscore: "lower_char c = CHR ''_'' \<longleftrightarrow> c = CHR ''_''"
  by (auto simp: lower_char_def ascii_upper_def ascii_lower_def split: option.splits if_splits)

lemma lower_no_underscore: "CHR ''_'' \<notin> set text \<Longrightarrow> CHR ''_'' \<notin> set (lower text)"
proof
  assume none: "CHR ''_'' \<notin> set text" and "CHR ''_'' \<in> set (lower text)"
  then obtain x where "x \<in> set text" "lower_char x = CHR ''_''"
    by (auto simp: lower_def)
  with none show False
    by (simp add: lower_char_underscore)
qed

lemma findall_words_alnum_runs:
  "CHR ''_'' \<notin> set xs \<Longrightarrow> findall_words xs = spec_alnum_runs xs"
proof (induction xs rule: findall_words.induct)
  case 1
  then show ?case by simp
next
  case (2 c cs)
  have same: "is_word_char x = is_alnum_char x" if "x \<in> set (c # cs)" for x
    using that "2.prems" by (auto simp: is_word_char_def)
  have tw: "takeWhile is_word_char cs = takeWhile is_alnum_char cs"
    by (rule takeWhile_cong) (simp_all add: same)
  have dw: "dropWhile is_word_char cs = dropWhile is_alnum_char cs"
    by (rule dropWhile_cong) (simp_all add: same)
  have rest: "CHR ''_'' \<notin> set (dropWhile is_word_char cs)"
    using "2.prems" by (auto dest: set_dropWhileD)
  show ?case
  proof (cases "is_word_char c")
    case True
    with "2.IH"(1) rest show ?thesis
      using same [of c] tw dw by simp
  next
    case False
    with "2.IH"(2) "2.prems" show ?thesis
      using same [of c] by simp
  qed
qed

text \<open>
  On texts without an underscore the code computes what the specification describes.
\<close>

lemma overlap_refines_spec:
  assumes "CHR ''_'' \<notin> set a" and "CHR ''_'' \<notin> set b"
  shows "calculate_lexical_overlap a b = spec_lexical_overlap a b"
proof -
  have "get_tokens a = spec_tokens a" "get_tokens b = spec_tokens b"
    using assms
    by (simp_all add: get_tokens_def spec_tokens_def findall_words_alnum_runs lower_no_underscore)
  then show ?thesis
    by (simp add: calculate_lexical_overlap_def spec_lexical_overlap_def Let_def)
qed


text \<open>
  C7, as stated, fails: \<open>overlap(A, A) = 1\<close> does not hold for every non-empty string,
  since a non-empty string of punctuation has no token and the guard returns \<open>0\<close>.
\<close>

theorem overlap_self_counterexample:
  "''!'' \<noteq> [] \<and> calculate_lexical_overlap ''!'' ''!'' \<noteq> 1"
  by code_simp

text \<open>
  C7, amended. For all strings \<open>a\<close> and \<open>b\<close>: the overlap is symmetric; it lies between
  \<open>0\<close> and \<open>1\<close>; the overlap of \<open>a\<close> with itself is \<open>1\<close> whenever \<open>a\<close> has at least one
  token; and the overlap is \<open>0\<close> when \<open>a\<close> or \<open>b\<close> has no token.
\<close>

theorem overlap_symmetric_bounded:
  "calculate_lexical_overlap a b = calculate_lexical_overlap b a \<and>
   0 \<le> calculate_lexical_overlap a b \<and>
   calculate_lexical_overlap a b \<le> 1 \<and>
   (get_tokens a \<noteq> {} \<longrightarrow> calculate_lexical_overlap a a = 1) \<and>
   (get_tokens a = {} \<or> get_tokens b = {} \<longrightarrow> calculate_lexical_overlap a b = 0)"
  using overlap_commute [of a b] overlap_nonneg [of a b] overlap_le_one [of a b]
    overlap_self [of a] overlap_empty [of a b]
  by blast

theorem overlap_symmetric_bounded_witness:
  "get_tokens ''kick the bucket'' \<noteq> {} \<and>
   get_tokens ''?!'' = {} \<and>
   calculate_lexical_overlap ''kick the bucket'' ''?!'' =
     calculate_lexical_overlap ''?!'' ''kick the bucket'' \<and>
   calculate_lexical_overlap ''kick the bucket'' ''kick the bucket'' = 1 \<and>
   calculate_lexical_overlap ''kick the bucket'' ''?!'' = 0"
  using overlap_symmetric_bounded [of "''kick the bucket''" "''?!''"]
  by (simp add: tokens_kick tokens_punctuation)

subsection \<open>Weighted scorer\<close>

text \<open>
  C1. The scorer returns \<open>base = idiom_weight * idiom_sim + context_weight * context_sim\<close>,
  multiplied by \<open>1 - overlap * 0.5\<close> exactly when the penalty is enabled, \<open>overlap > 0.3\<close>
  and \<open>base > 0.6\<close>. Both bounds are strict: an overlap of exactly \<open>0.3\<close> leaves the base
  unchanged, and an overlap of \<open>0.31\<close> with a base of \<open>0.61\<close> multiplies it by \<open>0.845\<close>.
\<close>

theorem compute_weighted_similarity_penalty:
  "compute_weighted_similarity s c a b w v pen =
     (if pen \<and> calculate_lexical_overlap a b > 0.3 \<and> w * s + v * c > 0.6
      then (w * s + v * c) * (1 - calculate_lexical_overlap a b * 0.5)
      else w * s + v * c) \<and>
   (calculate_lexical_overlap a b = 0.3 \<longrightarrow>
      compute_weighted_similarity s c a b w v True = w * s + v * c) \<and>
   (calculate_lexical_overlap a b = 0.31 \<and> w * s + v * c = 0.61 \<longrightarrow>
      compute_weighted_similarity s c a b w v True = 0.61 * 0.845)"
proof (intro conjI impI)
  show "compute_weighted_similarity s c a b w v pen =
     (if pen \<and> calculate_lexical_overlap a b > 0.3 \<and> w * s + v * c > 0.6
      then (w * s + v * c) * (1 - calculate_lexical_overlap a b * 0.5)
      else w * s + v * c)"
    by (simp add: compute_weighted_similarity_def Let_def)
next
  assume "calculate_lexical_overlap a b = 0.3"
  then show "compute_weighted_similarity s c a b w v True = w * s + v * c"
    by (simp add: compute_weighted_similarity_def Let_def)
next
  assume "calculate_lexical_overlap a b = 0.31 \<and> w * s + v * c = 0.61"
  then have o: "calculate_lexical_overlap a b = 0.31" and b: "w * s + v * c = 0.61"
    by simp_all
  show "compute_weighted_similarity s c a b w v True = 0.61 * 0.845"
    unfolding compute_weighted_similarity_def Let_def o b by simp
qed

theorem compute_weighted_similarity_penalty_witness:
  "compute_weighted_similarity 0.9 0.8 ''a b c d e f'' ''a b c g h i j'' 0.6 0.4 True = 0.86 \<and>
   compute_weighted_similarity 0.61 0.61
     ''a0 a1 a2 a3 a4 a5 a6 a7 a8 a9 b0 b1 b2 b3 b4 b5 b6 b7 b8 b9 c0 c1 c2 c3 c4 c5 c6 c7 c8 c9 d0 d1 d2 d3 d4 d5 d6 d7 d8 d9 e0 e1 e2 e3 e4 e5 e6 e7 e8 e9 f0 f1 f2 f3 f4 f5 f6 f7 f8 f9 g0 g1 g2 g3 g4 g5 g6 g7 g8 g9 h0 h1 h2 h3 h4 h5 h6 h7 h8 h9 i0 i1 i2 i3 i4 i5 i6 i7 i8 i9 j0 j1 j2 j3 j4 j5 j6 j7 j8 j9''
     ''a0 a1 a2 a3 a4 a5 a6 a7 a8 a9 b0 b1 b2 b3 b4 b5 b6 b7 b8 b9 c0 c1 c2 c3 c4 c5 c6 c7 c8 c9 d0''
     0.6 0.4 True = 0.61 * 0.845 \<and>
   compute_weighted_similarity 0.75 0.75 ''kick the bucket'' ''Kick the can!'' 0.6 0.4 True
     = 0.5625"
  using
    compute_weighted_similarity_penalty
      [of "0.9" "0.8" "''a b c d e f''" "''a b c g h i j''" "0.6" "0.4" True]
    compute_weighted_similarity_penalty
      [of "0.61" "0.61"
        "''a0 a1 a2 a3 a4 a5 a6 a7 a8 a9 b0 b1 b2 b3 b4 b5 b6 b7 b8 b9 c0 c1 c2 c3 c4 c5 c6 c7 c8 c9 d0 d1 d2 d3 d4 d5 d6 d7 d8 d9 e0 e1 e2 e3 e4 e5 e6 e7 e8 e9 f0 f1 f2 f3 f4 f5 f6 f7 f8 f9 g0 g1 g2 g3 g4 g5 g6 g7 g8 g9 h0 h1 h2 h3 h4 h5 h6 h7 h8 h9 i0 i1 i2 i3 i4 i5 i6 i7 i8 i9 j0 j1 j2 j3 j4 j5 j6 j7 j8 j9''"
        "''a0 a1 a2 a3 a4 a5 a6 a7 a8 a9 b0 b1 b2 b3 b4 b5 b6 b7 b8 b9 c0 c1 c2 c3 c4 c5 c6 c7 c8 c9 d0''"
        "0.6" "0.4" True]
    compute_weighted_similarity_penalty
      [of "0.75" "0.75" "''kick the bucket''" "''Kick the can!''" "0.6" "0.4" True]
  by (simp add: overlap_three_tenths overlap_thirty_one_hundredths overlap_kick)

text \<open>
  C8. With the penalty switched off the scorer returns the pre-penalty base score, and
  for a positive idiom weight the base does not decrease when \<open>idiom_sim\<close> grows while
  \<open>context_sim\<close> and the two texts stay fixed.
\<close>

theorem base_score_monotone:
  "0 < w \<Longrightarrow> s1 \<le> s2 \<Longrightarrow>
   compute_weighted_similarity s1 c a b w v False = w * s1 + v * c \<and>
   compute_weighted_similarity s2 c a b w v False = w * s2 + v * c \<and>
   compute_weighted_similarity s1 c a b w v False
     \<le> compute_weighted_similarity s2 c a b w v False"
  by (simp add: compute_weighted_similarity_def)

theorem base_score_monotone_witness:
  "(0::real) < 0.6 \<and> (0.5::real) \<le> 0.9 \<and>
   compute_weighted_similarity 0.5 0.8 ''kick the bucket'' ''Kick the can!'' 0.6 0.4 False
     \<le> compute_weighted_similarity 0.9 0.8 ''kick the bucket'' ''Kick the can!'' 0.6 0.4 False"
  using base_score_monotone
    [of "0.6" "0.5" "0.9" "0.8" "''kick the bucket''" "''Kick the can!''" "0.4"]
  by simp

subsection \<open>Mode A\<close>

lemma inner_loop_filter:
  "concat (map (\<lambda>j. if P j then [f j] else []) js) = map f (filter P js)"
  by (induction js) simp_all

lemma nested_loop_product:
  "concat (map (\<lambda>i. concat (map (\<lambda>j. if P i j then [f i j] else []) js)) is) =
   map (\<lambda>(i, j). f i j) (filter (\<lambda>(i, j). P i j) (List.product is js))"
proof (induction "is")
  case Nil
  then show ?case by simp
next
  case (Cons i "is")
  have "concat (map (\<lambda>j. if P i j then [f i j] else []) js) =
        map (\<lambda>(i, j). f i j) (filter (\<lambda>(i, j). P i j) (map (Pair i) js))"
    by (simp add: inner_loop_filter filter_map comp_def)
  with Cons show ?case by simp
qed

lemma insort_key_map:
  "insort_key k (f x) (map f xs) = map f (insort_key (\<lambda>y. k (f y)) x xs)"
  by (induction xs) simp_all

lemma sort_key_map: "sort_key k (map f xs) = map f (sort_key (\<lambda>y. k (f y)) xs)"
  by (induction xs) (simp_all add: insort_key_map)

lemma product_index_sorted:
  "sorted_wrt (<) xs \<Longrightarrow> sorted_wrt (<) ys \<Longrightarrow> sorted_wrt index_before (List.product xs ys)"
proof (induction xs)
  case Nil
  then show ?case by simp
next
  case (Cons x xs)
  have "sorted_wrt index_before (map (Pair x) ys)"
    using Cons.prems(2) by (simp add: sorted_wrt_map index_before_def)
  moreover have "sorted_wrt index_before (List.product xs ys)"
    using Cons by simp
  moreover have "\<forall>p\<in>set (map (Pair x) ys). \<forall>q\<in>set (List.product xs ys). index_before p q"
    using Cons.prems(1) by (auto simp: index_before_def)
  ultimately show ?case
    by (simp add: sorted_wrt_append)
qed

lemma insort_key_ranked:
  assumes "sorted_wrt (\<lambda>p q. k p < k q \<or> (k p = k q \<and> L p q)) ys"
    and "\<forall>y\<in>set ys. L x y"
  shows "sorted_wrt (\<lambda>p q. k p < k q \<or> (k p = k q \<and> L p q)) (insort_key k x ys)"
  using assms
proof (induction ys)
  case Nil
  then show ?case by simp
next
  case (Cons y ys)
  show ?case
  proof (cases "k x \<le> k y")
    case True
    have "\<forall>z\<in>set (y # ys). k x < k z \<or> (k x = k z \<and> L x z)"
    proof
      fix z assume z: "z \<in> set (y # ys)"
      have "k y \<le> k z" using Cons.prems(1) z by auto
      with True have "k x \<le> k z" by simp
      moreover have "L x z" using Cons.prems(2) z by auto
      ultimately show "k x < k z \<or> (k x = k z \<and> L x z)" by auto
    qed
    with True Cons.prems(1) show ?thesis by simp
  next
    case False
    then have "k y < k x" by simp
    moreover have "sorted_wrt (\<lambda>p q. k p < k q \<or> (k p = k q \<and> L p q)) (insort_key k x ys)"
      using Cons by simp
    ultimately show ?thesis
      using False Cons.prems(1) by (auto simp: set_insort_key)
  qed
qed

lemma sort_key_ranked:
  "sorted_wrt L xs \<Longrightarrow>
   sorted_wrt (\<lambda>p q. k p < k q \<or> (k p = k q \<and> L p q)) (sort_key k xs)"
proof (induction xs)
  case Nil
  then show ?case by simp
next
  case (Cons x xs)
  then show ?case
    by (simp add: insort_key_ranked)
qed


lemma sorted_reverse_ranked:
  "sorted_wrt index_before ps \<Longrightarrow>
   sorted_wrt (ranked_before score) (sorted_reverse score ps)"
proof -
  assume "sorted_wrt index_before ps"
  then have "sorted_wrt (\<lambda>p q. - score p < - score q \<or> (- score p = - score q \<and> index_before p q))
               (sort_key (\<lambda>p. - score p) ps)"
    by (rule sort_key_ranked)
  moreover have "(\<lambda>p q. - score p < - score q \<or> (- score p = - score q \<and> index_before p q))
                   = ranked_before score"
    by (auto simp: ranked_before_def index_before_def fun_eq_iff)
  ultimately show ?thesis
    by (simp add: sorted_reverse_def)
qed

lemma sorted_reverse_map:
  "sorted_reverse k (map f xs) = map f (sorted_reverse (\<lambda>y. k (f y)) xs)"
  by (simp add: sorted_reverse_def sort_key_map)

lemma set_sorted_reverse: "set (sorted_reverse k xs) = set xs"
  by (simp add: sorted_reverse_def)

lemma distinct_sorted_reverse: "distinct (sorted_reverse k xs) = distinct xs"
  by (simp add: sorted_reverse_def)

lemma all_matches_pairs:
  "all_matches en tgt isims csims thr iw cw =
   map (\<lambda>(i, j). match_record en tgt isims csims iw cw i j)
     (retained_pairs en tgt isims csims thr iw cw)"
  unfolding all_matches_def retained_pairs_def
  by (rule nested_loop_product)

lemma weighted_similarity_match_record:
  "weighted_similarity (match_record en tgt isims csims iw cw i j) =
   pair_weighted en tgt isims csims iw cw i j"
  by (simp add: match_record_def)

text \<open>
  C2. The sorted Mode A list is the image of a list \<open>ps\<close> of index pairs that holds
  exactly the pairs of the cross product whose weighted score is at least the threshold
  (the comparison is inclusive), each once, ranked by descending score with equal scores
  in input order (source index, then target index). The statistics read the scores of
  the whole list; the persisted records are those of the first 100 pairs.
\<close>

theorem mode_a_ranking:
  "\<exists>ps.
     all_matches_sorted en tgt isims csims thr iw cw =
       map (\<lambda>(i, j). match_record en tgt isims csims iw cw i j) ps \<and>
     set ps = {(i, j). i < length en \<and> j < length tgt \<and>
                 thr \<le> pair_weighted en tgt isims csims iw cw i j} \<and>
     distinct ps \<and>
     sorted_wrt (ranked_before (\<lambda>(i, j). pair_weighted en tgt isims csims iw cw i j)) ps \<and>
     weighted_scores en tgt isims csims thr iw cw =
       map (\<lambda>(i, j). pair_weighted en tgt isims csims iw cw i j) ps \<and>
     saved_matches en tgt isims csims thr iw cw =
       map (\<lambda>(i, j). match_record en tgt isims csims iw cw i j) (take 100 ps)"
proof -
  let ?score = "\<lambda>(i, j). pair_weighted en tgt isims csims iw cw i j"
  let ?mk = "\<lambda>(i, j). match_record en tgt isims csims iw cw i j"
  let ?rs = "retained_pairs en tgt isims csims thr iw cw"
  let ?ps = "sorted_reverse ?score ?rs"
  have key: "(\<lambda>p. weighted_similarity (?mk p)) = ?score"
    by (auto simp: fun_eq_iff weighted_similarity_match_record)
  have sorted_eq: "all_matches_sorted en tgt isims csims thr iw cw = map ?mk ?ps"
    by (simp add: all_matches_sorted_def all_matches_pairs sorted_reverse_map key)
  have "sorted_wrt index_before (List.product [0..<length en] [0..<length tgt])"
    by (rule product_index_sorted) simp_all
  then have "sorted_wrt index_before ?rs"
    unfolding retained_pairs_def by (rule sorted_wrt_filter)
  then have ranked: "sorted_wrt (ranked_before ?score) ?ps"
    by (rule sorted_reverse_ranked)
  have members: "set ?ps = {(i, j). i < length en \<and> j < length tgt \<and>
                 thr \<le> pair_weighted en tgt isims csims iw cw i j}"
    by (auto simp: set_sorted_reverse retained_pairs_def)
  have "distinct ?rs"
    unfolding retained_pairs_def by (intro distinct_filter distinct_product) simp_all
  then have dist: "distinct ?ps"
    by (simp add: distinct_sorted_reverse)
  have scores: "weighted_scores en tgt isims csims thr iw cw = map ?score ?ps"
    unfolding weighted_scores_def sorted_eq
    by (simp add: comp_def key weighted_similarity_match_record case_prod_unfold)
  have saved: "saved_matches en tgt isims csims thr iw cw = map ?mk (take 100 ?ps)"
    unfolding saved_matches_def sorted_eq by (simp add: take_map)
  from sorted_eq members dist ranked scores saved show ?thesis
    by blast
qed

subsection \<open>Mode B and the statistics\<close>

lemma scan_sources_empty:
  "scan_sources [] tgt isims csims iw cw j = scan_init"
  by (simp add: scan_sources_def)

lemma py_index_empty: "py_index [] i = Inl IndexError"
  by (simp add: py_index_def)

lemma best_match_record_empty_source:
  "best_match_record [] tgt isims csims iw cw j = Inl IndexError"
  by (simp add: best_match_record_def Let_def py_index_empty)

lemma target_best_matches_empty_source:
  "target_best_matches [] (t # ts) isims csims iw cw = Inl IndexError"
  by (simp add: target_best_matches_def upt_conv_Cons best_match_record_empty_source
      del: upt_Suc)

lemma target_best_matches_empty_target:
  "target_best_matches en [] isims csims iw cw = Inr []"
  by (simp add: target_best_matches_def)

text \<open>
  C10. The scan starts from the sentinel index \<open>-1\<close> and replaces it only on a strictly
  greater score. With no source idiom the scan leaves the sentinel, reading
  \<open>en_idioms[-1]\<close> from the empty list raises \<open>IndexError\<close>, and with a non-empty target
  collection Mode B ends in that error instead of returning any record.
\<close>

theorem mode_b_empty_source_fails:
  "best_en_idx scan_init = - 1 \<and>
   scan_step en tgt isims csims iw cw j st i =
     (if best_score st < pair_weighted en tgt isims csims iw cw i j
      then \<lparr> best_score = pair_weighted en tgt isims csims iw cw i j, best_en_idx = int i,
             best_idiom_sim = isims i j, best_context_sim = csims i j \<rparr>
      else st) \<and>
   scan_sources [] (t # ts) isims csims iw cw j = scan_init \<and>
   py_index ([] :: idiom_rec list) (best_en_idx scan_init) = Inl IndexError \<and>
   best_match_record [] (t # ts) isims csims iw cw j = Inl IndexError \<and>
   target_best_matches [] (t # ts) isims csims iw cw = Inl IndexError \<and>
   target_best_matches_sorted [] (t # ts) isims csims iw cw = Inl IndexError"
  by (simp add: scan_sources_empty py_index_empty best_match_record_empty_source
      target_best_matches_empty_source target_best_matches_sorted_def scan_step_def Let_def
      scan_init_def)

lemma cosine_similarity_empty:
  "X = [] \<or> Y = [] \<Longrightarrow> cosine_similarity cosine X Y = Inl ValueError"
  by (auto simp: cosine_similarity_def)

lemma analyze_empty_embeddings:
  assumes "idiom_only_embeddings en_emb = [] \<or> idiom_only_embeddings tgt_emb = []"
  shows "analyze_language_pair cosine en en_emb tgt tgt_emb thr iw cw = Inl ValueError"
  using cosine_similarity_empty [OF assms, of cosine]
  by (simp add: analyze_language_pair_def)

lemma analyze_empty_idioms:
  assumes "en = [] \<or> tgt = []"
  shows "\<exists>e. analyze_language_pair cosine en en_emb tgt tgt_emb thr iw cw = Inl e"
proof (cases "cosine_similarity cosine (idiom_only_embeddings en_emb) (idiom_only_embeddings tgt_emb)")
  case (Inl e)
  then show ?thesis
    by (simp add: analyze_language_pair_def)
next
  case io: (Inr idiom_only_rows)
  show ?thesis
  proof (cases "cosine_similarity cosine (idiom_context_embeddings en_emb)
                  (idiom_context_embeddings tgt_emb)")
    case (Inl e)
    with io show ?thesis
      by (simp add: analyze_language_pair_def)
  next
    case ctx: (Inr context_rows)
    show ?thesis
    proof (cases "tgt = []")
      case True
      have "target_best_matches_sorted en [] isims csims iw cw = Inr []" for isims csims
        by (simp add: target_best_matches_sorted_def target_best_matches_empty_target
            sorted_reverse_def)
      moreover have "best_match_statistics [] = Inl ValueError"
        by (simp add: best_match_statistics_def np_min_def)
      ultimately show ?thesis
        using True io ctx by (simp add: analyze_language_pair_def Let_def)
    next
      case False
      with assms have en: "en = []"
        by simp
      from False obtain t ts where tgt: "tgt = t # ts"
        by (cases tgt) auto
      have "target_best_matches_sorted [] (t # ts) isims csims iw cw = Inl IndexError"
        for isims csims
        by (simp add: target_best_matches_sorted_def target_best_matches_empty_source)
      then show ?thesis
        using en tgt io ctx by (simp add: analyze_language_pair_def Let_def)
    qed
  qed
qed

text \<open>
  C5, as stated, fails: with an empty target collection (no idiom, no embedding row)
  nothing of Mode B raises or reports an \<open>EmptyCollectionError\<close>. The run ends earlier,
  in the \<open>ValueError\<close> of \<open>cosine_similarity\<close>, and the loop of Mode B on an empty
  target list would return the empty list without any signal of its own.
\<close>

theorem empty_collection_counterexample:
  "cosine_similarity unit_cosine [[1, 0]] [] = Inl ValueError \<and>
   analyze_language_pair unit_cosine
     [bare_idiom ''kick the bucket''] (same_embeddings [[1, 0]]) [] (same_embeddings [])
     0.65 0.6 0.4 = Inl ValueError \<and>
   target_best_matches [bare_idiom ''kick the bucket''] [] (const_matrix 0) (const_matrix 0)
     0.6 0.4 = Inr []"
  by (simp add: cosine_similarity_def analyze_language_pair_def same_embeddings_def
      target_best_matches_empty_target)

text \<open>
  C5, amended. When the idiom list on either side is empty, \<open>analyze_language_pair\<close>
  fails and returns no match record; when the embedding array of that side is empty as
  well, the failure is that of the similarity computation, before Mode A or Mode B runs.
\<close>

theorem empty_collection_no_records:
  "(en_idioms = [] \<or> target_idioms = [] \<longrightarrow>
      (\<exists>e. analyze_language_pair cosine en_idioms en_emb target_idioms tgt_emb thr iw cw
             = Inl e)) \<and>
   (idiom_only_embeddings en_emb = [] \<or> idiom_only_embeddings tgt_emb = [] \<longrightarrow>
      cosine_similarity cosine (idiom_only_embeddings en_emb) (idiom_only_embeddings tgt_emb)
        = Inl ValueError \<and>
      analyze_language_pair cosine en_idioms en_emb target_idioms tgt_emb thr iw cw
        = Inl ValueError)"
  using analyze_empty_idioms [of en_idioms target_idioms cosine en_emb tgt_emb thr iw cw]
    analyze_empty_embeddings [of en_emb tgt_emb cosine en_idioms target_idioms thr iw cw]
    cosine_similarity_empty
      [of "idiom_only_embeddings en_emb" "idiom_only_embeddings tgt_emb" cosine]
  by blast

theorem empty_collection_no_records_witness:
  "([] :: idiom_rec list) = [] \<and>
   idiom_only_embeddings (same_embeddings []) = [] \<and>
   (\<exists>e. analyze_language_pair unit_cosine
           [bare_idiom ''kick the bucket''] (same_embeddings [[1, 0]]) [] (same_embeddings [])
           0.65 0.6 0.4 = Inl e) \<and>
   analyze_language_pair unit_cosine
     [bare_idiom ''kick the bucket''] (same_embeddings [[1, 0]]) [] (same_embeddings [])
     0.65 0.6 0.4 = Inl ValueError"
  using empty_collection_no_records
    [of "[bare_idiom ''kick the bucket'']" "[]" unit_cosine "same_embeddings [[1, 0]]"
        "same_embeddings []" "0.65" "0.6" "0.4"]
  by (simp add: same_embeddings_def)


text \<open>
  C4 (the code raises on an empty score sequence). Only the statistics of the matches
  above the threshold are guarded. For the best-match statistics the bucket loop divides
  by the length \<open>0\<close> (\<open>ZeroDivisionError\<close>), \<open>np.min\<close> raises \<open>ValueError\<close> before it, and
  the analysis of an empty target list ends in that error when the similarity matrices
  could be computed (and in the error of \<open>cosine_similarity\<close> when they could not).
\<close>

theorem statistics_empty_raise:
  "threshold_distribution [] [0.5, 0.6, 0.7, 0.8, 0.9] = Inl ZeroDivisionError \<and>
   threshold_distribution [] [0.3, 0.4, 0.5, 0.6, 0.7, 0.8] = Inl ZeroDivisionError \<and>
   np_min [] = Inl ValueError \<and>
   best_match_statistics [] = Inl ValueError \<and>
   quality_metrics [] = None \<and>
   cosine_similarity unit_cosine [[1, 0]] [[0, 1]] = Inr [[0]] \<and>
   target_best_matches_sorted [bare_idiom ''kick the bucket''] []
     (matrix_of [[0]]) (matrix_of [[0]]) 0.6 0.4 = Inr [] \<and>
   analyze_language_pair unit_cosine
     [bare_idiom ''kick the bucket''] (same_embeddings [[1, 0]]) [] (same_embeddings [[0, 1]])
     0.65 0.6 0.4 = Inl ValueError \<and>
   analyze_language_pair unit_cosine
     [bare_idiom ''kick the bucket''] (same_embeddings [[1, 0]]) [] (same_embeddings [])
     0.65 0.6 0.4 = Inl ValueError"
proof -
  have stats: "best_match_statistics [] = Inl ValueError"
    by (simp add: best_match_statistics_def np_min_def)
  have cos: "cosine_similarity unit_cosine [[1, 0]] [[0, 1]] = Inr [[0]]"
    by (simp add: cosine_similarity_def common_dimension_def unit_cosine_def)
  have best: "target_best_matches_sorted en [] isims csims iw cw = Inr []" for en isims csims iw cw
    by (simp add: target_best_matches_sorted_def target_best_matches_empty_target
        sorted_reverse_def)
  have reached: "analyze_language_pair unit_cosine
     [bare_idiom ''kick the bucket''] (same_embeddings [[1, 0]]) [] (same_embeddings [[0, 1]])
     0.65 0.6 0.4 = Inl ValueError"
    by (simp add: analyze_language_pair_def same_embeddings_def cos best stats Let_def)
  have early: "analyze_language_pair unit_cosine
     [bare_idiom ''kick the bucket''] (same_embeddings [[1, 0]]) [] (same_embeddings [])
     0.65 0.6 0.4 = Inl ValueError"
    by (simp add: analyze_language_pair_def same_embeddings_def cosine_similarity_def)
  show ?thesis
    using stats cos best reached early
    by (simp add: np_min_def quality_metrics_def)
qed

lemma scan_sources_Suc:
  "n < length en \<Longrightarrow>
   foldl (scan_step en tgt isims csims iw cw j) scan_init [0..<Suc n] =
   scan_step en tgt isims csims iw cw j
     (foldl (scan_step en tgt isims csims iw cw j) scan_init [0..<n]) n"
  by simp

lemma scan_prefix_invariant:
  fixes en tgt isims csims iw cw j
  defines "score \<equiv> \<lambda>i. pair_weighted en tgt isims csims iw cw i j"
  defines "st \<equiv> \<lambda>n. foldl (scan_step en tgt isims csims iw cw j) scan_init [0..<n]"
  shows "(st n = scan_init \<and> (\<forall>i<n. score i \<le> - 1)) \<or>
         (\<exists>i<n. st n = \<lparr> best_score = score i, best_en_idx = int i,
                            best_idiom_sim = isims i j, best_context_sim = csims i j \<rparr> \<and>
                 - 1 < score i \<and> (\<forall>i'<i. score i' < score i) \<and> (\<forall>i'<n. score i' \<le> score i))"
proof (induction n)
  case 0
  then show ?case by (simp add: st_def)
next
  case (Suc n)
  have step: "st (Suc n) = scan_step en tgt isims csims iw cw j (st n) n"
    by (simp add: st_def)
  from Suc show ?case
  proof (elim disjE conjE exE)
    assume init: "st n = scan_init" and low: "\<forall>i<n. score i \<le> - 1"
    show ?thesis
    proof (cases "- 1 < score n")
      case True
      then have "st (Suc n) = \<lparr> best_score = score n, best_en_idx = int n,
                            best_idiom_sim = isims n j, best_context_sim = csims n j \<rparr>"
        by (simp add: step init scan_step_def Let_def scan_init_def score_def)
      moreover have "\<forall>i'<n. score i' < score n"
        using low True by fastforce
      moreover have "\<forall>i'<Suc n. score i' \<le> score n"
        using low True by (fastforce simp: less_Suc_eq)
      ultimately show ?thesis
        using True by blast
    next
      case False
      then have "st (Suc n) = scan_init"
        by (simp add: step init scan_step_def Let_def scan_init_def score_def)
      moreover have "\<forall>i<Suc n. score i \<le> - 1"
        using low False by (auto simp: less_Suc_eq)
      ultimately show ?thesis
        by blast
    qed
  next
    fix i
    assume i: "i < n"
      and sti: "st n = \<lparr> best_score = score i, best_en_idx = int i,
                          best_idiom_sim = isims i j, best_context_sim = csims i j \<rparr>"
      and pos: "- 1 < score i" and first: "\<forall>i'<i. score i' < score i"
      and maxi: "\<forall>i'<n. score i' \<le> score i"
    show ?thesis
    proof (cases "score i < score n")
      case True
      then have "st (Suc n) = \<lparr> best_score = score n, best_en_idx = int n,
                            best_idiom_sim = isims n j, best_context_sim = csims n j \<rparr>"
        by (simp add: step sti scan_step_def Let_def score_def)
      moreover have "\<forall>i'<n. score i' < score n"
        using maxi True by fastforce
      moreover have "\<forall>i'<Suc n. score i' \<le> score n"
        using maxi True by (fastforce simp: less_Suc_eq)
      moreover have "- 1 < score n"
        using pos True by simp
      ultimately show ?thesis
        by blast
    next
      case False
      then have "st (Suc n) = st n"
        by (simp add: step sti scan_step_def Let_def score_def)
      moreover have "\<forall>i'<Suc n. score i' \<le> score i"
        using maxi False by (auto simp: less_Suc_eq)
      moreover have "i < Suc n"
        using i by simp
      ultimately show ?thesis
        using sti pos first by metis
    qed
  qed
qed


lemma scan_sources_cases:
  "(scan_sources en tgt isims csims iw cw j = scan_init \<and>
      (\<forall>i<length en. pair_weighted en tgt isims csims iw cw i j \<le> - 1)) \<or>
   (\<exists>i<length en.
      scan_sources en tgt isims csims iw cw j =
        \<lparr> best_score = pair_weighted en tgt isims csims iw cw i j, best_en_idx = int i,
          best_idiom_sim = isims i j, best_context_sim = csims i j \<rparr> \<and>
      - 1 < pair_weighted en tgt isims csims iw cw i j \<and>
      (\<forall>i'<i. pair_weighted en tgt isims csims iw cw i' j
                < pair_weighted en tgt isims csims iw cw i j) \<and>
      (\<forall>i'<length en. pair_weighted en tgt isims csims iw cw i' j
                \<le> pair_weighted en tgt isims csims iw cw i j))"
  unfolding scan_sources_def by (rule scan_prefix_invariant)

lemma py_index_nat: "i < length xs \<Longrightarrow> py_index xs (int i) = Inr (xs ! i)"
  by (simp add: py_index_def)

lemma py_index_last: "xs \<noteq> [] \<Longrightarrow> py_index xs (- 1) = Inr (last xs)"
  by (cases xs) (simp_all add: py_index_def last_conv_nth nat_add_distrib)

text \<open>
  When some source idiom scores above the sentinel, the record of target \<open>j\<close> names the
  first source idiom of maximal score, with its score and its two similarities.
\<close>

lemma best_match_record_first_maximum:
  assumes "i0 < length en" and "- 1 < pair_weighted en tgt isims csims iw cw i0 j"
  shows "\<exists>i r. i < length en \<and>
     best_match_record en tgt isims csims iw cw j = Inr r \<and>
     best_english_match r = idiom (en ! i) \<and>
     best_weighted_similarity r = pair_weighted en tgt isims csims iw cw i j \<and>
     best_idiom_only_similarity r = isims i j \<and>
     best_context_similarity r = csims i j \<and>
     best_lang_idiom r = idiom (tgt ! j) \<and>
     (\<forall>i'<length en. pair_weighted en tgt isims csims iw cw i' j
                \<le> pair_weighted en tgt isims csims iw cw i j) \<and>
     (\<forall>i'<i. pair_weighted en tgt isims csims iw cw i' j
                < pair_weighted en tgt isims csims iw cw i j)"
proof -
  from scan_sources_cases [of en tgt isims csims iw cw j] assms
  obtain i where i: "i < length en"
    and st: "scan_sources en tgt isims csims iw cw j =
        \<lparr> best_score = pair_weighted en tgt isims csims iw cw i j, best_en_idx = int i,
          best_idiom_sim = isims i j, best_context_sim = csims i j \<rparr>"
    and first: "\<forall>i'<i. pair_weighted en tgt isims csims iw cw i' j
                < pair_weighted en tgt isims csims iw cw i j"
    and maxi: "\<forall>i'<length en. pair_weighted en tgt isims csims iw cw i' j
                \<le> pair_weighted en tgt isims csims iw cw i j"
    by fastforce
  from i st have "\<exists>r. best_match_record en tgt isims csims iw cw j = Inr r \<and>
     best_english_match r = idiom (en ! i) \<and>
     best_weighted_similarity r = pair_weighted en tgt isims csims iw cw i j \<and>
     best_idiom_only_similarity r = isims i j \<and>
     best_context_similarity r = csims i j \<and>
     best_lang_idiom r = idiom (tgt ! j)"
    by (simp add: best_match_record_def Let_def py_index_nat)
  with i first maxi show ?thesis
    by blast
qed

text \<open>
  When no source idiom scores above the sentinel, the index stays \<open>-1\<close> and the record
  names the last source idiom with the initial score and similarities.
\<close>

lemma best_match_record_sentinel:
  assumes "en \<noteq> []" and "\<forall>i<length en. pair_weighted en tgt isims csims iw cw i j \<le> - 1"
  shows "\<exists>r. best_match_record en tgt isims csims iw cw j = Inr r \<and>
     best_english_match r = idiom (last en) \<and>
     best_weighted_similarity r = - 1 \<and>
     best_idiom_only_similarity r = 0 \<and>
     best_context_similarity r = 0"
proof -
  from scan_sources_cases [of en tgt isims csims iw cw j] assms(2)
  have "scan_sources en tgt isims csims iw cw j = scan_init"
    by fastforce
  with assms(1) show ?thesis
    by (simp add: best_match_record_def Let_def scan_init_def py_index_last)
qed

lemma best_match_record_nonempty_source:
  assumes "en \<noteq> []"
  shows "\<exists>r. best_match_record en tgt isims csims iw cw j = Inr r \<and>
              best_lang_idiom r = idiom (tgt ! j)"
proof (cases "\<forall>i<length en. pair_weighted en tgt isims csims iw cw i j \<le> - 1")
  case True
  from scan_sources_cases [of en tgt isims csims iw cw j] True
  have "scan_sources en tgt isims csims iw cw j = scan_init"
    by fastforce
  with assms show ?thesis
    by (simp add: best_match_record_def Let_def scan_init_def py_index_last)
next
  case False
  then obtain i0 where "i0 < length en" "- 1 < pair_weighted en tgt isims csims iw cw i0 j"
    by (auto simp: not_le)
  from best_match_record_first_maximum [OF this] show ?thesis
    by blast
qed

lemma collect_records_all:
  "\<forall>i \<in> set is. \<exists>r. f i = Inr r \<and> P i r \<Longrightarrow>
   \<exists>rs. collect_records f is = Inr rs \<and> length rs = length is \<and>
        (\<forall>n<length is. P (is ! n) (rs ! n))"
proof (induction "is")
  case Nil
  then show ?case by simp
next
  case (Cons i "is")
  then obtain r where r: "f i = Inr r" "P i r"
    by auto
  from Cons obtain rs where rs: "collect_records f is = Inr rs" "length rs = length is"
    "\<forall>n<length is. P (is ! n) (rs ! n)"
    by auto
  have "\<forall>n<length (i # is). P ((i # is) ! n) ((r # rs) ! n)"
    using r(2) rs(3) by (auto simp: nth_Cons split: nat.splits)
  with r rs show ?case
    by simp
qed

text \<open>
  For a non-empty source collection Mode B returns exactly one record per target idiom,
  in target order, whatever the scores: no threshold takes part.
\<close>

lemma mode_b_one_record_per_target:
  assumes "en \<noteq> []"
  shows "\<exists>rs. target_best_matches en tgt isims csims iw cw = Inr rs \<and>
     length rs = length tgt \<and>
     (\<forall>j<length tgt. best_lang_idiom (rs ! j) = idiom (tgt ! j))"
proof -
  have "\<forall>j \<in> set [0..<length tgt].
          \<exists>r. best_match_record en tgt isims csims iw cw j = Inr r \<and>
              best_lang_idiom r = idiom (tgt ! j)"
    using best_match_record_nonempty_source [OF assms] by blast
  from collect_records_all [OF this] show ?thesis
    by (simp add: target_best_matches_def)
qed

text \<open>
  C3 (the code misses the tie at the sentinel). Two source idioms both score exactly
  \<open>-1\<close> against the target (cosine \<open>-1\<close> in both matrices, weights \<open>0.6\<close> and \<open>0.4\<close>).
  Neither is strictly greater than the initial \<open>best_score = -1\<close>, so the index stays
  \<open>-1\<close> and \<open>en_idioms[-1]\<close> is the last source idiom, reported with the initial
  similarities \<open>0\<close>; the claim selects the first. The \<open>np.argmax\<close> loop of the basic
  analysis selects the first on the same input.
\<close>

theorem mode_b_sentinel_tie:
  "target_best_matches [bare_idiom ''alpha'', bare_idiom ''beta''] [bare_idiom ''xi'']
     (const_matrix (- 1)) (const_matrix (- 1)) 0.6 0.4 =
   Inr [\<lparr> best_lang_idiom = ''xi'', best_lang_context = [], best_english_translation = [],
          best_english_match = ''beta'', best_english_context = [],
          best_weighted_similarity = - 1, best_idiom_only_similarity = 0,
          best_context_similarity = 0, best_lexical_overlap = 0 \<rparr>] \<and>
   pair_weighted [bare_idiom ''alpha'', bare_idiom ''beta''] [bare_idiom ''xi'']
     (const_matrix (- 1)) (const_matrix (- 1)) 0.6 0.4 0 0 = - 1 \<and>
   pair_weighted [bare_idiom ''alpha'', bare_idiom ''beta''] [bare_idiom ''xi'']
     (const_matrix (- 1)) (const_matrix (- 1)) 0.6 0.4 1 0 = - 1 \<and>
   simple_target_best_matches [bare_idiom ''alpha'', bare_idiom ''beta''] [bare_idiom ''xi'']
     (const_matrix (- 1)) =
   Inr [\<lparr> simple_lang_idiom = ''xi'', simple_lang_context = [],
          simple_english_translation = [], simple_best_english_match = ''alpha'',
          simple_english_context = [], simple_similarity = - 1 \<rparr>]"
  by code_simp

subsection \<open>The top-k matcher\<close>

lemma set_np_argsort: "set (np_argsort xs) = {0..<length xs}"
  by (simp add: np_argsort_def)

lemma np_argsort_descending:
  "sorted_wrt (\<lambda>i j. xs ! j \<le> xs ! i) (rev (np_argsort xs))"
proof -
  have "sorted (map (\<lambda>i. xs ! i) (np_argsort xs))"
    by (simp add: np_argsort_def)
  then have "sorted_wrt (\<lambda>i j. xs ! i \<le> xs ! j) (np_argsort xs)"
    by (simp add: sorted_wrt_map)
  then show ?thesis
    by (simp add: sorted_wrt_rev)
qed

lemma py_slice_to_nonneg: "0 \<le> k \<Longrightarrow> py_slice_to xs k = take (nat k) xs"
  by (simp add: py_slice_to_def)

lemma matched_mwes_length:
  assumes "0 \<le> top_k"
  shows "int (length (matched_mwes foreign sims thr top_k)) \<le> top_k"
proof -
  have "length (filter (\<lambda>idx. thr \<le> sims ! idx) (take (nat top_k) (rev (np_argsort sims))))
          \<le> length (take (nat top_k) (rev (np_argsort sims)))"
    by (rule length_filter_le)
  also have "\<dots> \<le> nat top_k"
    by simp
  finally show ?thesis
    using assms by (simp add: matched_mwes_def py_slice_to_nonneg)
qed

lemma top_indices_in_range:
  "idx \<in> set (py_slice_to (rev (np_argsort sims)) top_k) \<Longrightarrow> idx < length sims"
proof -
  assume "idx \<in> set (py_slice_to (rev (np_argsort sims)) top_k)"
  then have "idx \<in> set (rev (np_argsort sims))"
    by (auto simp: py_slice_to_def dest: in_set_takeD split: if_splits)
  then show ?thesis
    by (simp add: set_np_argsort)
qed

lemma matched_mwes_members:
  assumes "length sims = length foreign" and "(f, s) \<in> set (matched_mwes foreign sims thr top_k)"
  shows "thr \<le> s \<and> (\<exists>j < length foreign. f = foreign ! j \<and> s = sims ! j)"
proof -
  from assms(2) obtain idx where
    idx: "idx \<in> set (py_slice_to (rev (np_argsort sims)) top_k)" and thr: "thr \<le> sims ! idx"
    and f: "f = foreign ! idx" and s: "s = sims ! idx"
    by (auto simp: matched_mwes_def)
  from idx have "idx < length foreign"
    using top_indices_in_range assms(1) by fastforce
  with thr f s show ?thesis
    by blast
qed

lemma matched_mwes_descending:
  assumes "0 \<le> top_k"
  shows "sorted_wrt (\<lambda>x y. y \<le> x) (map snd (matched_mwes foreign sims thr top_k))"
proof -
  let ?top = "take (nat top_k) (rev (np_argsort sims))"
  have "sorted_wrt (\<lambda>i j. sims ! j \<le> sims ! i) ?top"
    using np_argsort_descending by (rule sorted_wrt_take)
  then have "sorted_wrt (\<lambda>i j. sims ! j \<le> sims ! i) (filter (\<lambda>idx. thr \<le> sims ! idx) ?top)"
    by (rule sorted_wrt_filter)
  then show ?thesis
    using assms by (simp add: matched_mwes_def py_slice_to_nonneg sorted_wrt_map comp_def)
qed

lemma matched_mwes_none:
  assumes "length sims = length foreign" and "\<forall>j < length foreign. sims ! j < thr"
  shows "matched_mwes foreign sims thr top_k = []"
proof -
  have "\<not> thr \<le> sims ! idx" if "idx \<in> set (py_slice_to (rev (np_argsort sims)) top_k)" for idx
  proof -
    from that have "idx < length foreign"
      using top_indices_in_range assms(1) by fastforce
    with assms(2) show ?thesis
      by (simp add: not_le)
  qed
  then have "filter (\<lambda>idx. thr \<le> sims ! idx) (py_slice_to (rev (np_argsort sims)) top_k) = []"
    by (simp add: filter_empty_conv)
  then show ?thesis
    by (simp add: matched_mwes_def)
qed

lemma record_loop_absent:
  "\<forall>(k', row) \<in> set entries. k' = k \<longrightarrow> matched_mwes foreign row thr top_k = [] \<Longrightarrow>
   foldl (record_matches foreign thr top_k) m entries k = m k"
proof (induction entries arbitrary: m)
  case Nil
  then show ?case by simp
next
  case (Cons entry entries)
  have "foldl (record_matches foreign thr top_k) m (entry # entries) k =
        foldl (record_matches foreign thr top_k) (record_matches foreign thr top_k m entry) entries k"
    by simp
  also have "\<dots> = record_matches foreign thr top_k m entry k"
    using Cons.prems by (intro Cons.IH) simp
  also have "\<dots> = m k"
    using Cons.prems by (cases entry) (auto simp: record_matches_def Let_def)
  finally show ?case .
qed

lemma record_loop_present:
  "foldl (record_matches foreign thr top_k) m entries k = Some v \<Longrightarrow>
   m k = Some v \<or>
   (\<exists>row. (k, row) \<in> set entries \<and> v = matched_mwes foreign row thr top_k \<and> v \<noteq> [])"
proof (induction entries arbitrary: m)
  case Nil
  then show ?case by simp
next
  case (Cons entry entries)
  obtain k' row where entry: "entry = (k', row)"
    by (cases entry)
  from Cons.prems
  have "foldl (record_matches foreign thr top_k) (record_matches foreign thr top_k m entry) entries k
          = Some v"
    by simp
  from Cons.IH [OF this] show ?case
  proof
    assume step: "record_matches foreign thr top_k m entry k = Some v"
    show ?thesis
    proof (cases "k' = k \<and> matched_mwes foreign row thr top_k \<noteq> []")
      case True
      with step entry have "v = matched_mwes foreign row thr top_k"
        by (simp add: record_matches_def Let_def)
      with True entry show ?thesis
        by auto
    next
      case False
      with step entry have "m k = Some v"
        by (auto simp: record_matches_def Let_def split: if_splits)
      then show ?thesis
        by simp
    qed
  next
    assume "\<exists>row. (k, row) \<in> set entries \<and> v = matched_mwes foreign row thr top_k \<and> v \<noteq> []"
    then show ?thesis
      by auto
  qed
qed

lemma idiom_texts_encoded_length:
  "length (encoded_texts_of inp) = length (idiom_texts_of inp)"
  by (cases inp) (simp_all add: encoded_texts_of_def idiom_texts_of_def)

lemma entries_of_zip:
  assumes "length encoded = length keys"
    and "(k, row) \<in> set (zip keys (map (\<lambda>a. map (sim a) foreign) encoded))"
  shows "\<exists>i<length keys. keys ! i = k \<and> row = map (sim (encoded ! i)) foreign"
proof -
  from assms(2) obtain i where "i < length keys" "i < length encoded"
    "keys ! i = k" "map (\<lambda>a. map (sim a) foreign) encoded ! i = row"
    by (auto simp: in_set_zip)
  then show ?thesis
    by auto
qed

lemma example_dicts_texts:
  "idiom_texts_of example_dicts = [''a'', ''b''] \<and>
   encoded_texts_of example_dicts = [''a'', ''b: to b or not'']"
  by code_simp

lemma example_matches_a:
  "matches_of (find_similar_mwes example_sim example_dicts [''x'', ''y'', ''z''] 0.6 2) ''a''
     = Some [(''y'', 0.9), (''z'', 0.8)]"
  by code_simp

text \<open>
  C9, as stated, fails twice. For a negative \<open>top_k\<close> the slice \<^verbatim>\<open>[:top_k]\<close> drops
  elements from the end, and with \<open>top_k = -1\<close> and three candidates the entry holds two
  pairs. For an empty list of foreign MWEs no mapping is returned: \<open>cosine_similarity\<close>
  raises \<open>ValueError\<close>.
\<close>

theorem find_similar_mwes_counterexample:
  "matches_of (find_similar_mwes example_sim (Strings [''a'']) [''x'', ''y'', ''z''] 0.6 (- 1)) ''a''
     = Some [(''y'', 0.9), (''z'', 0.8)] \<and>
   \<not> int (length [(''y'', 0.9 :: real), (''z'', 0.8)]) \<le> - 1 \<and>
   find_similar_mwes example_sim (Strings [''a'']) [] 0.6 5 = Inl ValueError"
proof -
  have "matches_of (find_similar_mwes example_sim (Strings [''a'']) [''x'', ''y'', ''z''] 0.6 (- 1)) ''a''
     = Some [(''y'', 0.9), (''z'', 0.8)]"
    by code_simp
  moreover have "find_similar_mwes example_sim (Strings [''a'']) [] 0.6 5 = Inl ValueError"
    by (simp add: find_similar_mwes_def compute_similarity_def idiom_texts_of_def)
  ultimately show ?thesis
    by simp
qed

text \<open>
  C9, amended. For \<open>top_k \<ge> 0\<close>, every non-empty list of English idioms (strings or
  dictionaries) and every non-empty list of foreign MWEs, \<open>find_similar_mwes\<close> returns a
  mapping; each entry is not empty, holds at most \<open>top_k\<close> pairs in descending score
  order, and consists of foreign MWEs with their similarity to one English idiom of that
  key, every score at least the threshold; and an idiom text none of whose entries has a
  candidate reaching the threshold is not a key of the mapping.
\<close>

theorem find_similar_mwes_entries:
  assumes "0 \<le> top_k" and "idiom_texts_of inp \<noteq> []" and "foreign \<noteq> []"
  shows "\<exists>m. find_similar_mwes sim inp foreign thr top_k = Inr m \<and>
     (\<forall>k v. m k = Some v \<longrightarrow>
        v \<noteq> [] \<and> int (length v) \<le> top_k \<and>
        sorted_wrt (\<lambda>x y. y \<le> x) (map snd v) \<and>
        (\<exists>i<length (idiom_texts_of inp). idiom_texts_of inp ! i = k \<and>
           (\<forall>(f, s) \<in> set v. thr \<le> s \<and> f \<in> set foreign \<and>
                               s = sim (encoded_texts_of inp ! i) f))) \<and>
     (\<forall>k. (\<forall>i<length (idiom_texts_of inp). idiom_texts_of inp ! i = k \<longrightarrow>
              (\<forall>f \<in> set foreign. sim (encoded_texts_of inp ! i) f < thr)) \<longrightarrow>
          m k = None)"
proof -
  let ?keys = "idiom_texts_of inp"
  let ?enc = "encoded_texts_of inp"
  let ?entries = "zip ?keys (map (\<lambda>a. map (sim a) foreign) ?enc)"
  let ?m = "foldl (record_matches foreign thr top_k) Map.empty ?entries"
  have len: "length ?enc = length ?keys"
    by (rule idiom_texts_encoded_length)
  with assms(2) have "?enc \<noteq> []"
    by auto
  with assms(2,3) have m: "find_similar_mwes sim inp foreign thr top_k = Inr ?m"
    by (simp add: find_similar_mwes_def compute_similarity_def Let_def)
  have entries: "v \<noteq> [] \<and> int (length v) \<le> top_k \<and>
        sorted_wrt (\<lambda>x y. y \<le> x) (map snd v) \<and>
        (\<exists>i<length ?keys. ?keys ! i = k \<and>
           (\<forall>(f, s) \<in> set v. thr \<le> s \<and> f \<in> set foreign \<and> s = sim (?enc ! i) f))"
    if "?m k = Some v" for k v
  proof -
    from record_loop_present [OF that] obtain row where
      row: "(k, row) \<in> set ?entries" and v: "v = matched_mwes foreign row thr top_k" and ne: "v \<noteq> []"
      by auto
    from entries_of_zip [OF len row] obtain i where
      i: "i < length ?keys" "?keys ! i = k" and r: "row = map (sim (?enc ! i)) foreign"
      by blast
    have "thr \<le> s \<and> f \<in> set foreign \<and> s = sim (?enc ! i) f" if "(f, s) \<in> set v" for f s
      using matched_mwes_members [of row foreign f s thr top_k] that v r
      by auto
    then have "\<forall>(f, s) \<in> set v. thr \<le> s \<and> f \<in> set foreign \<and> s = sim (?enc ! i) f"
      by auto
    with i have "\<exists>i<length ?keys. ?keys ! i = k \<and>
           (\<forall>(f, s) \<in> set v. thr \<le> s \<and> f \<in> set foreign \<and> s = sim (?enc ! i) f)"
      by blast
    with ne v assms(1) show ?thesis
      by (simp add: matched_mwes_length matched_mwes_descending)
  qed
  have absent: "?m k = None"
    if none: "\<forall>i<length ?keys. ?keys ! i = k \<longrightarrow> (\<forall>f \<in> set foreign. sim (?enc ! i) f < thr)" for k
  proof -
    have "matched_mwes foreign row thr top_k = []" if "(k, row) \<in> set ?entries" for row
    proof -
      from entries_of_zip [OF len that] obtain i where
        i: "i < length ?keys" "?keys ! i = k" and r: "row = map (sim (?enc ! i)) foreign"
        by blast
      with none have "\<forall>f \<in> set foreign. sim (?enc ! i) f < thr"
        by blast
      then show ?thesis
        unfolding r by (intro matched_mwes_none) simp_all
    qed
    then have "\<forall>(k', row) \<in> set ?entries. k' = k \<longrightarrow> matched_mwes foreign row thr top_k = []"
      by auto
    from record_loop_absent [OF this] show ?thesis
      by simp
  qed
  from m entries absent show ?thesis
    by blast
qed

theorem find_similar_mwes_entries_witness:
  "(0::int) \<le> 2 \<and> idiom_texts_of example_dicts \<noteq> [] \<and> [''x'', ''y'', ''z''] \<noteq> [] \<and>
   (\<exists>m. find_similar_mwes example_sim example_dicts [''x'', ''y'', ''z''] 0.6 2 = Inr m \<and>
        m ''a'' = Some [(''y'', 0.9), (''z'', 0.8)] \<and>
        int (length [(''y'', 0.9 :: real), (''z'', 0.8)]) \<le> 2 \<and>
        m ''b'' = None)"
proof -
  have k: "(0::int) \<le> 2"
    by simp
  have ne: "idiom_texts_of example_dicts \<noteq> []"
    by (simp add: example_dicts_texts)
  have fe: "[''x'', ''y'', ''z''] \<noteq> []"
    by simp
  from find_similar_mwes_entries [OF k ne fe, of example_sim "0.6"]
  obtain m where
    m: "find_similar_mwes example_sim example_dicts [''x'', ''y'', ''z''] 0.6 2 = Inr m" and
    entries: "\<forall>k v. m k = Some v \<longrightarrow> int (length v) \<le> 2" and
    absent: "\<forall>k. (\<forall>i<length (idiom_texts_of example_dicts).
                     idiom_texts_of example_dicts ! i = k \<longrightarrow>
                     (\<forall>f \<in> set [''x'', ''y'', ''z''].
                        example_sim (encoded_texts_of example_dicts ! i) f < 0.6)) \<longrightarrow>
                 m k = None"
    by blast
  have a: "m ''a'' = Some [(''y'', 0.9), (''z'', 0.8)]"
    using example_matches_a m by (simp add: matches_of_def)
  have "\<forall>i<length (idiom_texts_of example_dicts).
          idiom_texts_of example_dicts ! i = ''b'' \<longrightarrow>
          (\<forall>f \<in> set [''x'', ''y'', ''z''].
             example_sim (encoded_texts_of example_dicts ! i) f < 0.6)"
    by (simp add: example_dicts_texts example_sim_def less_Suc_eq nth_Cons')
  with absent have b: "m ''b'' = None"
    by blast
  from entries a have "int (length [(''y'', 0.9 :: real), (''z'', 0.8)]) \<le> 2"
    by blast
  with k ne fe m a b show ?thesis
    by blast
qed


end
